theory Spec2Isabelle
  imports Main "HOL-Library.Sublist" "HOL-Library.Char_ord" "HOL-Library.List_Lexorder"
    "HOL-Library.Log_Nat"
begin

section \<open>The Stryker mutation test coordinator (src/Stryker.ts)\<close>

subsection \<open>Test run results\<close>

text \<open>
  \<^verbatim>\<open>TestResult\<close> and \<^verbatim>\<open>RunResult\<close> come from the package \<^verbatim>\<open>stryker-api/test_runner\<close>.
  The coordinator reads five fields of a run result. The two counts are read by
  JavaScript truthiness (\<^verbatim>\<open>!runResult.failed\<close>, \<^verbatim>\<open>if (result.succeeded)\<close>), which is how
  an optional number is read, so a count is an \<open>int option\<close> with \<open>None\<close> for
  \<^verbatim>\<open>undefined\<close>. The two lists are read unguarded and are lists of strings.
\<close>

datatype TestResult = Complete | Error | Timeout

record RunResult =
  testNames :: "string list"
  result :: TestResult
  succeeded :: "int option"
  failed :: "int option"
  errorMessages :: "string list"

text \<open>Truthiness of an optional number: \<^verbatim>\<open>undefined\<close> and \<^verbatim>\<open>0\<close> are falsy.\<close>

definition truthy :: "int option \<Rightarrow> bool" where
  "truthy v = (case v of None \<Rightarrow> False | Some n \<Rightarrow> n \<noteq> 0)"

text \<open>
  \<^verbatim>\<open>
  filterOutUnsuccesfulResults(runResults: RunResult[]) {
    return runResults.filter((runResult: RunResult) =>
      !(!runResult.failed && runResult.result === TestResult.Complete));
  }
  \<close>
\<close>

definition filterOutUnsuccesfulResults :: "RunResult list \<Rightarrow> RunResult list" where
  "filterOutUnsuccesfulResults runResults =
     filter (\<lambda>runResult. \<not> (\<not> truthy (failed runResult) \<and> result runResult = Complete)) runResults"

text \<open>
  The same function over a store of objects: a JavaScript array holds references, the
  callback reads two fields of each referenced object, and \<^verbatim>\<open>Array.prototype.filter\<close>
  builds a new array of the references that pass. Nothing is written, so the store
  is returned as it came.
\<close>

type_synonym ref = nat

definition filterOutUnsuccesfulResults_store ::
  "(ref \<Rightarrow> RunResult) \<Rightarrow> ref list \<Rightarrow> ref list \<times> (ref \<Rightarrow> RunResult)" where
  "filterOutUnsuccesfulResults_store store runResults =
     (filter (\<lambda>p. \<not> (\<not> truthy (failed (store p)) \<and> result (store p) = Complete)) runResults,
      store)"

subsection \<open>Library functions the coordinator calls\<close>

text \<open>
  \<^verbatim>\<open>_.flatten\<close> on an array of arrays of strings is \<open>concat\<close>. \<^verbatim>\<open>_.uniq\<close> walks the
  array and keeps a value when it is not yet among the kept ones, so the first
  occurrence stays. \<^verbatim>\<open>Array.prototype.sort\<close> without a comparator orders strings by
  their code units, which is the lexicographic order of \<open>string\<close>; the sorted
  arrangement of a list of strings is unique, so \<open>sort\<close> gives it.
\<close>

definition uniq :: "'a list \<Rightarrow> 'a list" where
  "uniq array = foldl (\<lambda>kept v. if v \<in> set kept then kept else kept @ [v]) [] array"

text \<open>The decimal numeral a template literal prints for an array length.\<close>

fun showNat :: "nat \<Rightarrow> string" where
  "showNat n =
     (if n < 10 then [char_of (48 + n)] else showNat (n div 10) @ [char_of (48 + n mod 10)])"

declare showNat.simps [simp del]

text \<open>
  A JavaScript number is a double. On integers, \<^verbatim>\<open>a + b\<close> is the exact sum rounded to the
  nearest double, a tie going to the even significand: below \<open>2 ^ 53\<close> in magnitude every
  integer is a double, and from there on the doubles are the multiples of the power of
  two that leaves 53 significant bits. A sum that rounds to \<open>2 ^ 1024\<close> or beyond in
  magnitude is infinite, and an infinite total is never finite again; which of the
  values that are not finite it is is not told apart.
\<close>

datatype number = Finite int | NonFinite

definition roundToDouble :: "int \<Rightarrow> int" where
  "roundToDouble x =
     (if \<bar>x\<bar> < 2 ^ 53 then x
      else (let ulp = 2 ^ nat (bitlen \<bar>x\<bar> - 53);
                q = \<bar>x\<bar> div ulp;
                rest = \<bar>x\<bar> mod ulp;
                significand = (if 2 * rest < ulp \<or> (2 * rest = ulp \<and> even q) then q else q + 1)
            in sgn x * (significand * ulp)))"

definition addNumber :: "number \<Rightarrow> int \<Rightarrow> number" where
  "addNumber subtotal n =
     (case subtotal of
        NonFinite \<Rightarrow> NonFinite
      | Finite t \<Rightarrow>
          (if \<bar>roundToDouble (t + n)\<bar> < 2 ^ 1024 then Finite (roundToDouble (t + n))
           else NonFinite))"

subsection \<open>Effects\<close>

text \<open>
  A thrown error or a rejected promise is a value; the coordinator itself throws one
  \<^verbatim>\<open>Error\<close>, the collaborators may reject with any.
\<close>

datatype rejection = JsError string

definition InitialRunFailed :: rejection where
  "InitialRunFailed = JsError ''There were failed tests in the initial test run''"

text \<open>
  The configuration is a JavaScript object: a tree of primitive values and of objects
  (arrays included), each object with its properties in order and a flag telling
  whether it is frozen.
\<close>

datatype config_value =
    Str string
  | Num int
  | Bool bool
  | Null
  | Obj bool "(string \<times> config_value) list"

text \<open>Reading a property (\<open>None\<close> is \<^verbatim>\<open>undefined\<close>) and the truthiness of what was read.\<close>

fun getProp :: "string \<Rightarrow> config_value \<Rightarrow> config_value option" where
  "getProp k (Obj frozen kvs) = map_of kvs k"
| "getProp k _ = None"

fun truthyValue :: "config_value option \<Rightarrow> bool" where
  "truthyValue None = False"
| "truthyValue (Some (Str s)) = (s \<noteq> [])"
| "truthyValue (Some (Num n)) = (n \<noteq> 0)"
| "truthyValue (Some (Bool b)) = b"
| "truthyValue (Some Null) = False"
| "truthyValue (Some (Obj frozen kvs)) = True"

record InputFile =
  path :: string
  shouldMutate :: bool

text \<open>
  How a promise ends: fulfilled with a value, rejected with an error, or pending for
  ever.
\<close>

datatype 'a promise = Fulfilled 'a | Rejected rejection | Pending

text \<open>What \<^verbatim>\<open>reporter.wrapUp()\<close> returns: nothing, or a promise.\<close>

datatype maybe_promise = Void | Promise "unit promise"

text \<open>
  Modelled from the spec: \<^verbatim>\<open>isPromise\<close> of \<^verbatim>\<open>utils/objectUtils\<close> is not among the sources;
  it tells whether the finalization step is asynchronous.
\<close>

fun isPromise :: "maybe_promise \<Rightarrow> bool" where
  "isPromise Void = False"
| "isPromise (Promise p) = True"

text \<open>
  What a run does to the outside is recorded as a list of events, in the order of the
  calls: the log lines and the calls to the collaborators with their arguments.
  \<open>'m\<close> is the type of mutants.
\<close>

datatype 'm event =
    CreateBroadcastReporter config_value
  | DetermineTestSelector config_value
  | Resolve "config_value option" "config_value option"
  | InitialRun config_value "InputFile list"
  | LogInfo string
  | LogInfoFormat string number
  | LogError string
  | GenerateMutants "string list"
  | MatchWithMutants "'m list" "RunResult list"
  | RunMutations config_value "InputFile list" "'m list"
  | WrapUp

text \<open>
  The collaborators of one pipeline run, as the functions of their arguments that they
  are in that run. \<^verbatim>\<open>matchWithMutants\<close> writes into the mutants it was constructed with;
  its value here is the array of mutants afterwards, which is the array
  \<^verbatim>\<open>runMutations\<close> then receives. The test runner orchestrator is constructed with the
  configuration and the input files, so its two methods take them. The synchronous
  collaborators are taken to return; the asynchronous ones return a promise, which may
  end in any way. \<open>'r\<close> is the type of mutant results.
\<close>

record ('m, 'r) collaborators =
  resolve :: "config_value option \<Rightarrow> config_value option \<Rightarrow> InputFile list promise"
  initialRun :: "config_value \<Rightarrow> InputFile list \<Rightarrow> RunResult list promise"
  generateMutants :: "string list \<Rightarrow> 'm list"
  matchWithMutants :: "'m list \<Rightarrow> RunResult list \<Rightarrow> 'm list"
  runMutations :: "config_value \<Rightarrow> InputFile list \<Rightarrow> 'm list \<Rightarrow> 'r list promise"
  wrapUp :: maybe_promise

text \<open>
  A promise of the chain, with the events up to the point where it settles or hangs.
  \<^verbatim>\<open>promise.then(callback)\<close> runs the callback once the promise is fulfilled and ends as
  what the callback returns ends; it passes a rejection on, and stays pending while the
  promise does. A callback that throws rejects the result.
\<close>

type_synonym ('m, 'a) chained = "'a promise \<times> 'm event list"

fun andThen :: "('m, 'a) chained \<Rightarrow> ('a \<Rightarrow> ('m, 'b) chained) \<Rightarrow> ('m, 'b) chained" where
  "andThen (Fulfilled v, events) callback =
     (case callback v of (p, events') \<Rightarrow> (p, events @ events'))"
| "andThen (Rejected e, events) callback = (Rejected e, events)"
| "andThen (Pending, events) callback = (Pending, events)"

subsection \<open>Freezing the configuration\<close>

text \<open>
  Modelled from the spec: \<^verbatim>\<open>freezeRecursively\<close> of \<^verbatim>\<open>utils/objectUtils\<close> is not among the
  sources. The spec has the configuration immutable "recursively, including nested
  mapping/sequence values", with a second freeze a no-op: the object and every object
  below it is frozen, primitive values are left as they are.
\<close>

primrec freezeRecursively :: "config_value \<Rightarrow> config_value" where
  "freezeRecursively (Str s) = Str s"
| "freezeRecursively (Num n) = Num n"
| "freezeRecursively (Bool b) = Bool b"
| "freezeRecursively Null = Null"
| "freezeRecursively (Obj frozen kvs) = Obj True (map (map_prod id freezeRecursively) kvs)"

text \<open>Whether an object and every object below it is frozen.\<close>

primrec frozenRecursively :: "config_value \<Rightarrow> bool" where
  "frozenRecursively (Str s) = True"
| "frozenRecursively (Num n) = True"
| "frozenRecursively (Bool b) = True"
| "frozenRecursively Null = True"
| "frozenRecursively (Obj frozen kvs) =
     (frozen \<and> list_all (pred_prod (\<lambda>k. True) frozenRecursively) kvs)"

text \<open>
  What freezing means to a writer: the assignment \<^verbatim>\<open>target.k.k1...kn = v\<close> in strict
  mode. The objects on the way are read; the last one is written unless it is frozen,
  and then the assignment throws a \<^verbatim>\<open>TypeError\<close>, as it does on a primitive value and on
  \<^verbatim>\<open>undefined\<close>. The value is the target after the assignment.
\<close>

definition TypeError :: rejection where
  "TypeError = JsError ''TypeError''"

fun setProp :: "(string \<times> config_value) list \<Rightarrow> string \<Rightarrow> config_value
    \<Rightarrow> (string \<times> config_value) list" where
  "setProp [] k v = [(k, v)]"
| "setProp ((k', v') # kvs) k v = (if k' = k then (k, v) # kvs else (k', v') # setProp kvs k v)"

fun assign :: "string \<Rightarrow> string list \<Rightarrow> config_value \<Rightarrow> config_value
    \<Rightarrow> rejection + config_value" where
  "assign k [] v (Obj frozen kvs) =
     (if frozen then Inl TypeError else Inr (Obj frozen (setProp kvs k v)))"
| "assign k (k1 # ks) v (Obj frozen kvs) =
     (case map_of kvs k of
        None \<Rightarrow> Inl TypeError
      | Some child \<Rightarrow>
          (case assign k1 ks v child of
             Inl e \<Rightarrow> Inl e
           | Inr child' \<Rightarrow> Inr (Obj frozen (setProp kvs k child'))))"
| "assign k ks v _ = Inl TypeError"

subsection \<open>The class \<^verbatim>\<open>Stryker\<close>\<close>

record Stryker =
  config :: config_value

text \<open>
  What the constructor calls: the configuration reader, the registry of configuration
  writers (a writer is the function from the configuration it is given to the
  configuration after its \<^verbatim>\<open>write\<close>), and the logger's level test on the global
  log level. \<open>'o\<close> is the type of the options.
\<close>

record 'o environment =
  readConfig :: "'o \<Rightarrow> config_value"
  knownNames :: "string list"
  create :: "string \<Rightarrow> config_value \<Rightarrow> config_value"
  isDebugEnabled :: "config_value option \<Rightarrow> bool"

datatype setup_event =
    SetGlobalLogLevel "config_value option"
  | LoadPlugins config_value
  | WriteConfig string
  | LogDebugConfig config_value

definition setGlobalLogLevel :: "config_value \<Rightarrow> setup_event list" where
  "setGlobalLogLevel cfg = [SetGlobalLogLevel (getProp ''logLevel'' cfg)]"

definition loadPlugins :: "config_value \<Rightarrow> setup_event list" where
  "loadPlugins cfg =
     (if truthyValue (getProp ''plugins'' cfg)
      then (case getProp ''plugins'' cfg of Some plugins \<Rightarrow> [LoadPlugins plugins] | None \<Rightarrow> [])
      else [])"

definition applyConfigWriters :: "'o environment \<Rightarrow> config_value \<Rightarrow> config_value \<times> setup_event list" where
  "applyConfigWriters env cfg =
     (foldl (\<lambda>cfg' configWriterName. create env configWriterName cfg') cfg (knownNames env),
      map WriteConfig (knownNames env))"

definition freezeConfig :: "'o environment \<Rightarrow> config_value \<Rightarrow> config_value \<times> setup_event list" where
  "freezeConfig env cfg =
     (let cfg' = freezeRecursively cfg
      in (cfg', if isDebugEnabled env (getProp ''logLevel'' cfg) then [LogDebugConfig cfg'] else []))"

definition constructor :: "'o environment \<Rightarrow> 'o \<Rightarrow> Stryker \<times> setup_event list" where
  "constructor env options =
     (let cfg0 = readConfig env options;
          ev1 = setGlobalLogLevel cfg0;
          ev2 = loadPlugins cfg0;
          (cfg1, ev3) = applyConfigWriters env cfg0;
          ev4 = setGlobalLogLevel cfg1;
          (cfg2, ev5) = freezeConfig env cfg1
      in (\<lparr>config = cfg2\<rparr>, ev1 @ ev2 @ ev3 @ ev4 @ ev5))"

text \<open>
  \<^verbatim>\<open>
  private logInitialTestRunSucceeded(runResults: RunResult[]) {
    let totalAmountOfTests = 0;
    runResults.forEach(result => {
      if (result.succeeded) { totalAmountOfTests += result.succeeded; }
    });
    log.info('Initial test run succeeded. Ran %s tests.', totalAmountOfTests);
  }
  \<close>
\<close>

definition totalAmountOfTests :: "RunResult list \<Rightarrow> number" where
  "totalAmountOfTests runResults =
     foldl (\<lambda>total r. if truthy (succeeded r)
                        then (case succeeded r of Some n \<Rightarrow> addNumber total n | None \<Rightarrow> total)
                        else total) (Finite 0) runResults"

definition logInitialTestRunSucceeded :: "RunResult list \<Rightarrow> 'm event list" where
  "logInitialTestRunSucceeded runResults =
     [LogInfoFormat ''Initial test run succeeded. Ran %s tests.'' (totalAmountOfTests runResults)]"

text \<open>
  \<^verbatim>\<open>logFailedTests\<close>: the two lists it computes, the messages it builds from them (every
  entry on a line of its own, after a newline and a tab), and the log lines.
\<close>

definition failedSpecNames :: "RunResult list \<Rightarrow> string list" where
  "failedSpecNames unsuccessfulTests =
     sort (uniq (concat (map testNames
       (filter (\<lambda>runResult. result runResult = Complete) unsuccessfulTests))))"

definition errors :: "RunResult list \<Rightarrow> string list" where
  "errors unsuccessfulTests =
     sort (concat (map errorMessages
       (filter (\<lambda>runResult. result runResult = Error) unsuccessfulTests)))"

definition appendLines :: "string \<Rightarrow> string list \<Rightarrow> string" where
  "appendLines message entries =
     foldl (\<lambda>message entry. message @ [CHR 0x0A, CHR 0x09] @ entry) message entries"

definition logFailedTests :: "RunResult list \<Rightarrow> 'm event list" where
  "logFailedTests unsuccessfulTests =
     (if length (failedSpecNames unsuccessfulTests) > 0
      then [LogError (appendLines ''One or more tests failed in the inial test run:''
                        (failedSpecNames unsuccessfulTests))]
      else [])
     @
     (if length (errors unsuccessfulTests) > 0
      then [LogError (appendLines ''One or more tests errored in the initial test run:''
                        (errors unsuccessfulTests))]
      else [])"

text \<open>
  \<^verbatim>\<open>runMutationTest\<close>, callback by callback. The first promise is the resolution of the
  input files, the second the initial run; the third callback is the baseline gate with
  the generation, matching and execution of the mutants behind it; the last one wraps
  the reporter up.
\<close>

fun thePromise :: "maybe_promise \<Rightarrow> unit promise" where
  "thePromise (Promise p) = p"
| "thePromise Void = Fulfilled ()"

definition onInitialRun ::
  "Stryker \<Rightarrow> ('m, 'r) collaborators \<Rightarrow> RunResult list \<times> InputFile list \<Rightarrow> ('m, 'r list) chained" where
  "onInitialRun this c tuple =
     (let runResults = fst tuple;
          inputFiles = snd tuple;
          unsuccessfulTests = filterOutUnsuccesfulResults runResults
      in if length unsuccessfulTests = 0 then
           (let paths = map path (filter shouldMutate inputFiles);
                mutants = generateMutants c paths;
                matched = matchWithMutants c mutants runResults
            in (runMutations c (config this) inputFiles matched,
                logInitialTestRunSucceeded runResults
                @ [GenerateMutants paths,
                   LogInfo (showNat (length mutants) @ '' Mutant(s) generated''),
                   MatchWithMutants mutants runResults,
                   RunMutations (config this) inputFiles matched]))
         else (Rejected InitialRunFailed, logFailedTests unsuccessfulTests))"

definition onMutantResults :: "('m, 'r) collaborators \<Rightarrow> 'r list \<Rightarrow> ('m, 'r list) chained" where
  "onMutantResults c mutantResults =
     (let maybePromise = wrapUp c
      in if isPromise maybePromise
         then andThen (thePromise maybePromise, [WrapUp]) (\<lambda>u. (Fulfilled mutantResults, []))
         else (Fulfilled mutantResults, [WrapUp]))"

definition runMutationTest :: "Stryker \<Rightarrow> ('m, 'r) collaborators \<Rightarrow> ('m, 'r list) chained" where
  "runMutationTest this c =
     andThen
       (andThen
          (andThen
             (resolve c (getProp ''mutate'' (config this)) (getProp ''files'' (config this)),
              [CreateBroadcastReporter (config this),
               DetermineTestSelector (config this),
               Resolve (getProp ''mutate'' (config this)) (getProp ''files'' (config this))])
             (\<lambda>inputFiles.
                andThen (initialRun c (config this) inputFiles, [InitialRun (config this) inputFiles])
                  (\<lambda>runResults. (Fulfilled (runResults, inputFiles), []))))
          (onInitialRun this c))
       (onMutantResults c)"

text \<open>Reading a run: which events are calls of which collaborator.\<close>

fun isMutantWork :: "'m event \<Rightarrow> bool" where
  "isMutantWork (GenerateMutants paths) = True"
| "isMutantWork (MatchWithMutants mutants runResults) = True"
| "isMutantWork (RunMutations cfg inputFiles mutants) = True"
| "isMutantWork _ = False"

fun isLogError :: "'m event \<Rightarrow> bool" where
  "isLogError (LogError message) = True"
| "isLogError _ = False"

fun isGenerateMutants :: "'m event \<Rightarrow> bool" where
  "isGenerateMutants (GenerateMutants paths) = True"
| "isGenerateMutants _ = False"

fun isMatchWithMutants :: "'m event \<Rightarrow> bool" where
  "isMatchWithMutants (MatchWithMutants mutants runResults) = True"
| "isMatchWithMutants _ = False"

fun isLogInfoFormat :: "'m event \<Rightarrow> bool" where
  "isLogInfoFormat (LogInfoFormat format n) = True"
| "isLogInfoFormat _ = False"

text \<open>
  Whether an event, if it is a call that is handed the configuration or a part of it,
  is handed the given configuration.
\<close>

fun observes :: "config_value \<Rightarrow> 'm event \<Rightarrow> bool" where
  "observes cfg (CreateBroadcastReporter cfg') = (cfg' = cfg)"
| "observes cfg (DetermineTestSelector cfg') = (cfg' = cfg)"
| "observes cfg (Resolve mutate files) = (mutate = getProp ''mutate'' cfg \<and> files = getProp ''files'' cfg)"
| "observes cfg (InitialRun cfg' inputFiles) = (cfg' = cfg)"
| "observes cfg (RunMutations cfg' inputFiles mutants) = (cfg' = cfg)"
| "observes cfg _ = True"

text \<open>The events of a run up to the settlement of the initial run.\<close>

definition setupEvents :: "Stryker \<Rightarrow> InputFile list \<Rightarrow> 'm event list" where
  "setupEvents this inputFiles =
     [CreateBroadcastReporter (config this), DetermineTestSelector (config this),
      Resolve (getProp ''mutate'' (config this)) (getProp ''files'' (config this)),
      InitialRun (config this) inputFiles]"

subsection \<open>Example runs\<close>

text \<open>
  A frozen configuration, three input files of which two are to be mutated, and
  collaborators that resolve to these files, report a given baseline, generate one
  mutant for each path they are given, and kill every mutant. A mutant is its
  description, a mutant result a mutant with its verdict.
\<close>

definition exampleConfig :: config_value where
  "exampleConfig =
     Obj True [(''files'', Obj True [(''0'', Str ''src/a.js''), (''1'', Str ''test/a.spec.js'')]),
               (''mutate'', Obj True [(''0'', Str ''src/a.js'')]),
               (''logLevel'', Str ''info'')]"

definition exampleFiles :: "InputFile list" where
  "exampleFiles =
     [\<lparr>path = ''src/a.js'', shouldMutate = True\<rparr>,
      \<lparr>path = ''test/a.spec.js'', shouldMutate = False\<rparr>,
      \<lparr>path = ''src/b.js'', shouldMutate = True\<rparr>]"

definition exampleCollaborators ::
  "RunResult list \<Rightarrow> maybe_promise \<Rightarrow> (string, string \<times> bool) collaborators" where
  "exampleCollaborators baseline finalization =
     \<lparr>resolve = (\<lambda>mutate files. Fulfilled exampleFiles),
      initialRun = (\<lambda>cfg inputFiles. Fulfilled baseline),
      generateMutants = map (\<lambda>p. p @ '':1''),
      matchWithMutants = (\<lambda>mutants runResults. mutants),
      runMutations = (\<lambda>cfg inputFiles mutants. Fulfilled (map (\<lambda>m. (m, True)) mutants)),
      wrapUp = finalization\<rparr>"

text \<open>
  A construction whose reader yields an unfrozen configuration and whose one
  configuration writer sets the log level.
\<close>

definition exampleEnvironment :: "unit environment" where
  "exampleEnvironment =
     \<lparr>readConfig = (\<lambda>options.
        Obj False [(''files'', Obj False [(''0'', Str ''src/a.js''), (''1'', Str ''test/a.spec.js'')]),
                   (''mutate'', Obj False [(''0'', Str ''src/a.js'')])]),
      knownNames = [''logLevel''],
      create = (\<lambda>configWriterName cfg.
        case assign configWriterName [] (Str ''info'') cfg of Inr cfg' \<Rightarrow> cfg' | Inl e \<Rightarrow> cfg),
      isDebugEnabled = (\<lambda>level. level = Some (Str ''debug''))\<rparr>"

definition cleanBaseline :: "RunResult list" where
  "cleanBaseline =
     [\<lparr>testNames = [''adds numbers'', ''subtracts numbers''], result = Complete,
        succeeded = Some 2, failed = Some 0, errorMessages = []\<rparr>,
      \<lparr>testNames = [''multiplies numbers''], result = Complete,
        succeeded = Some 8, failed = None, errorMessages = []\<rparr>]"

definition failedBaseline :: "RunResult list" where
  "failedBaseline =
     [\<lparr>testNames = [''b'', ''a''], result = Complete,
        succeeded = Some 0, failed = Some 2, errorMessages = []\<rparr>,
      \<lparr>testNames = [''d''], result = Complete,
        succeeded = Some 1, failed = Some 0, errorMessages = []\<rparr>,
      \<lparr>testNames = [''a'', ''c''], result = Complete,
        succeeded = Some 0, failed = Some 2, errorMessages = []\<rparr>]"

text \<open>One complete run of two tests, of which one failed.\<close>

definition mixedBaseline :: "RunResult list" where
  "mixedBaseline =
     [\<lparr>testNames = [''passes'', ''fails''], result = Complete,
        succeeded = Some 1, failed = Some 1, errorMessages = []\<rparr>]"

definition erroredBaseline :: "RunResult list" where
  "erroredBaseline =
     [\<lparr>testNames = [], result = Error,
        succeeded = None, failed = None, errorMessages = [''timeout'']\<rparr>,
      \<lparr>testNames = [], result = Error,
        succeeded = None, failed = None, errorMessages = [''timeout'']\<rparr>]"

definition timedOutBaseline :: "RunResult list" where
  "timedOutBaseline =
     [\<lparr>testNames = [''adds numbers''], result = Complete,
        succeeded = Some 1, failed = Some 0, errorMessages = []\<rparr>,
      \<lparr>testNames = [''loops''], result = Timeout,
        succeeded = None, failed = None, errorMessages = [''gave up'']\<rparr>]"

section \<open>Properties\<close>

subsection \<open>The promise chain\<close>

lemma runMutationTest_after_initialRun:
  assumes "resolve c (getProp ''mutate'' (config this)) (getProp ''files'' (config this)) = Fulfilled inputFiles"
    and "initialRun c (config this) inputFiles = Fulfilled runResults"
  shows "runMutationTest this c =
           andThen (andThen (Fulfilled (runResults, inputFiles), setupEvents this inputFiles)
                      (onInitialRun this c)) (onMutantResults c)"
  using assms by (simp add: runMutationTest_def setupEvents_def)

lemma runMutationTest_gate_failed:
  assumes "resolve c (getProp ''mutate'' (config this)) (getProp ''files'' (config this)) = Fulfilled inputFiles"
    and "initialRun c (config this) inputFiles = Fulfilled runResults"
    and "filterOutUnsuccesfulResults runResults \<noteq> []"
  shows "runMutationTest this c =
           (Rejected InitialRunFailed,
            setupEvents this inputFiles @ logFailedTests (filterOutUnsuccesfulResults runResults))"
  using assms(3) unfolding runMutationTest_after_initialRun [OF assms(1,2)]
  by (simp add: onInitialRun_def)

lemma onMutantResults_events:
  "\<exists>tail. snd (andThen (p, events) (onMutantResults c)) = events @ tail
      \<and> set tail \<subseteq> {WrapUp}"
proof (cases p)
  case (Fulfilled mutantResults)
  show ?thesis
  proof (cases "wrapUp c")
    case Void
    with Fulfilled show ?thesis by (simp add: onMutantResults_def)
  next
    case (Promise finalization)
    with Fulfilled show ?thesis by (cases finalization) (simp_all add: onMutantResults_def)
  qed
qed simp_all

lemma runMutationTest_gate_clean:
  assumes "resolve c (getProp ''mutate'' (config this)) (getProp ''files'' (config this)) = Fulfilled inputFiles"
    and "initialRun c (config this) inputFiles = Fulfilled runResults"
    and "filterOutUnsuccesfulResults runResults = []"
  shows "runMutationTest this c =
           andThen
             (runMutations c (config this) inputFiles
                (matchWithMutants c (generateMutants c (map path (filter shouldMutate inputFiles))) runResults),
              setupEvents this inputFiles @ logInitialTestRunSucceeded runResults
              @ [GenerateMutants (map path (filter shouldMutate inputFiles)),
                 LogInfo (showNat (length (generateMutants c (map path (filter shouldMutate inputFiles))))
                          @ '' Mutant(s) generated''),
                 MatchWithMutants (generateMutants c (map path (filter shouldMutate inputFiles))) runResults,
                 RunMutations (config this) inputFiles
                   (matchWithMutants c (generateMutants c (map path (filter shouldMutate inputFiles))) runResults)])
             (onMutantResults c)"
  using assms(3) unfolding runMutationTest_after_initialRun [OF assms(1,2)]
  by (simp add: onInitialRun_def Let_def)

lemma logFailedTests_events: "ev \<in> set (logFailedTests us) \<Longrightarrow> isLogError ev"
  by (auto simp add: logFailedTests_def split: if_splits)

subsection \<open>The lists of the diagnostics, the total, the frozen configuration\<close>

lemma uniq_step:
  "set (foldl (\<lambda>kept v. if v \<in> set kept then kept else kept @ [v]) acc xs) = set acc \<union> set xs
   \<and> (distinct acc \<longrightarrow> distinct (foldl (\<lambda>kept v. if v \<in> set kept then kept else kept @ [v]) acc xs))"
  by (induction xs arbitrary: acc) auto

lemma set_uniq: "set (uniq xs) = set xs"
  using uniq_step [of "[]" xs] by (simp add: uniq_def)

lemma distinct_uniq: "distinct (uniq xs)"
  using uniq_step [of "[]" xs] by (simp add: uniq_def)

lemma appendLines_concat:
  "appendLines message entries
     = message @ concat (map (\<lambda>entry. CHR 0x0A # CHR 0x09 # entry) entries)"
  unfolding appendLines_def by (induction entries arbitrary: message) simp_all

lemma logFailedTests_all_errors: "filter isLogError (logFailedTests us) = logFailedTests us"
  by (simp add: logFailedTests_def)

lemma failedSpecNames_sorted: "sorted (failedSpecNames us)"
  by (simp add: failedSpecNames_def)

lemma failedSpecNames_distinct: "distinct (failedSpecNames us)"
  by (simp add: failedSpecNames_def distinct_uniq)

lemma failedSpecNames_set:
  "set (failedSpecNames us) = (\<Union>r \<in> {r \<in> set us. result r = Complete}. set (testNames r))"
  by (auto simp add: failedSpecNames_def set_uniq)

lemma unsuccessful_Complete:
  "{r \<in> set (filterOutUnsuccesfulResults runResults). result r = Complete}
     = {r \<in> set runResults. result r = Complete \<and> truthy (failed r)}"
  by (auto simp add: filterOutUnsuccesfulResults_def)

lemma addNumber_exact: "\<bar>t + n\<bar> < 2 ^ 53 \<Longrightarrow> addNumber (Finite t) n = Finite (t + n)"
proof -
  assume small: "\<bar>t + n\<bar> < 2 ^ 53"
  have "(2::int) ^ 53 \<le> 2 ^ 1024" by (rule power_increasing) simp_all
  with small have "\<bar>t + n\<bar> < 2 ^ 1024" by linarith
  with small show ?thesis by (simp add: addNumber_def roundToDouble_def)
qed

lemma succeeded_sum_nonneg:
  assumes "\<forall>r \<in> set rs. \<forall>n. succeeded r = Some n \<longrightarrow> 0 \<le> n"
  shows "0 \<le> (\<Sum>r\<leftarrow>rs. case succeeded r of Some n \<Rightarrow> n | None \<Rightarrow> 0)"
  using assms by (induction rs) (auto split: option.splits)

lemma totalAmountOfTests_step:
  assumes "\<forall>r \<in> set rs. \<forall>n. succeeded r = Some n \<longrightarrow> 0 \<le> n"
    and "0 \<le> a"
    and "a + (\<Sum>r\<leftarrow>rs. case succeeded r of Some n \<Rightarrow> n | None \<Rightarrow> 0) < 2 ^ 53"
  shows "foldl (\<lambda>total r. if truthy (succeeded r)
                        then (case succeeded r of Some n \<Rightarrow> addNumber total n | None \<Rightarrow> total)
                        else total) (Finite a) rs
         = Finite (a + (\<Sum>r\<leftarrow>rs. case succeeded r of Some n \<Rightarrow> n | None \<Rightarrow> 0))"
  using assms
proof (induction rs arbitrary: a)
  case Nil
  then show ?case by simp
next
  case (Cons r rs)
  from Cons.prems(1) have rest: "\<forall>r \<in> set rs. \<forall>n. succeeded r = Some n \<longrightarrow> 0 \<le> n"
    by simp
  have tail: "0 \<le> (\<Sum>r\<leftarrow>rs. case succeeded r of Some n \<Rightarrow> n | None \<Rightarrow> 0)"
    using rest by (rule succeeded_sum_nonneg)
  show ?case
  proof (cases "succeeded r")
    case None
    with Cons.IH [OF rest, of a] Cons.prems show ?thesis by (simp add: truthy_def)
  next
    case (Some n)
    with Cons.prems(1) have n: "0 \<le> n" by simp
    from Some Cons.prems(3) tail n Cons.prems(2) have small: "\<bar>a + n\<bar> < 2 ^ 53" by simp
    from Some Cons.prems(3) have bound:
      "(a + n) + (\<Sum>r\<leftarrow>rs. case succeeded r of Some n \<Rightarrow> n | None \<Rightarrow> 0) < 2 ^ 53"
      by (simp add: add.assoc)
    from n Cons.prems(2) have "0 \<le> a + n" by simp
    note IH = Cons.IH [OF rest this bound]
    show ?thesis
    proof (cases "n = 0")
      case True
      with Some IH show ?thesis by (simp add: truthy_def)
    next
      case False
      with Some IH addNumber_exact [OF small] show ?thesis
        by (simp add: truthy_def add.assoc)
    qed
  qed
qed

lemma totalAmountOfTests_sum:
  assumes "\<forall>r \<in> set rs. \<forall>n. succeeded r = Some n \<longrightarrow> 0 \<le> n"
    and "(\<Sum>r\<leftarrow>rs. case succeeded r of Some n \<Rightarrow> n | None \<Rightarrow> 0) < 2 ^ 53"
  shows "totalAmountOfTests rs
         = Finite (\<Sum>r\<leftarrow>rs. case succeeded r of Some n \<Rightarrow> n | None \<Rightarrow> 0)"
  using totalAmountOfTests_step [OF assms(1), of 0] assms(2)
  by (simp add: totalAmountOfTests_def)

lemma totalAmountOfTests_rounds:
  "totalAmountOfTests
     [\<lparr>testNames = [], result = Complete, succeeded = Some 9007199254740992, failed = Some 0,
        errorMessages = []\<rparr>,
      \<lparr>testNames = [], result = Complete, succeeded = Some 1, failed = Some 0,
        errorMessages = []\<rparr>] = Finite 9007199254740992
   \<and> totalAmountOfTests
     [\<lparr>testNames = [], result = Complete, succeeded = Some 9007199254740992, failed = Some 0,
        errorMessages = []\<rparr>,
      \<lparr>testNames = [], result = Complete, succeeded = Some 3, failed = Some 0,
        errorMessages = []\<rparr>] = Finite 9007199254740996"
  by code_simp

lemma frozenRecursively_freezeRecursively: "frozenRecursively (freezeRecursively c)"
  by (induction c) (auto simp add: list_all_iff)

lemma freezeRecursively_frozen: "frozenRecursively c \<Longrightarrow> freezeRecursively c = c"
proof (induction c)
  case (Obj frozen kvs)
  have "map (map_prod id freezeRecursively) kvs = map id kvs"
  proof (rule map_cong [OF refl])
    fix kv assume kv: "kv \<in> set kvs"
    obtain k v where eq: "kv = (k, v)" by (cases kv)
    from Obj.prems kv eq have "frozenRecursively v" by (auto simp add: list_all_iff)
    with Obj.IH kv eq have "freezeRecursively v = v" by auto
    with eq show "map_prod id freezeRecursively kv = id kv" by simp
  qed
  with Obj.prems show ?case by simp
qed simp_all

lemma assign_frozen: "frozenRecursively c \<Longrightarrow> assign k ks v c = Inl TypeError"
proof (induction k ks v c rule: assign.induct)
  case (2 k k1 ks v frozen kvs)
  show ?case
  proof (cases "map_of kvs k")
    case None
    then show ?thesis by simp
  next
    case (Some child)
    then have "(k, child) \<in> set kvs" by (rule map_of_SomeD)
    with "2.prems" have "frozenRecursively child" by (auto simp add: list_all_iff)
    with "2.IH" Some have "assign k1 ks v child = Inl TypeError" by simp
    with Some show ?thesis by simp
  qed
qed simp_all

lemma filter_wrapUp_tail:
  assumes "set tail \<subseteq> {WrapUp}"
  shows "filter isGenerateMutants tail = []" and "filter isMatchWithMutants tail = []"
    and "filter isLogInfoFormat tail = []"
  using assms by (auto simp add: filter_empty_conv)

lemma runMutationTest_observes:
  assumes ev: "ev \<in> set (snd (runMutationTest this c))"
  shows "observes (config this) ev"
proof (cases "resolve c (getProp ''mutate'' (config this)) (getProp ''files'' (config this))")
  case resolved: (Fulfilled inputFiles)
  show ?thesis
  proof (cases "initialRun c (config this) inputFiles")
    case ran: (Fulfilled runResults)
    show ?thesis
    proof (cases "filterOutUnsuccesfulResults runResults = []")
      case True
      obtain tail where "snd (runMutationTest this c)
          = (setupEvents this inputFiles @ logInitialTestRunSucceeded runResults
             @ [GenerateMutants (map path (filter shouldMutate inputFiles)),
                LogInfo (showNat (length (generateMutants c (map path (filter shouldMutate inputFiles))))
                         @ '' Mutant(s) generated''),
                MatchWithMutants (generateMutants c (map path (filter shouldMutate inputFiles))) runResults,
                RunMutations (config this) inputFiles
                  (matchWithMutants c (generateMutants c (map path (filter shouldMutate inputFiles))) runResults)])
            @ tail"
        and "set tail \<subseteq> {WrapUp}"
        unfolding runMutationTest_gate_clean [OF resolved ran True]
        using onMutantResults_events by blast
      with ev show ?thesis
        by (auto simp add: setupEvents_def logInitialTestRunSucceeded_def)
    next
      case False
      have "observes (config this) ev'"
        if "ev' \<in> set (logFailedTests (filterOutUnsuccesfulResults runResults))"
        for ev' :: "'a event"
        using logFailedTests_events [OF that] by (cases ev') simp_all
      with ev show ?thesis
        unfolding runMutationTest_gate_failed [OF resolved ran False]
        by (auto simp add: setupEvents_def)
    qed
  next
    case (Rejected e)
    with resolved ev show ?thesis by (auto simp add: runMutationTest_def)
  next
    case Pending
    with resolved ev show ?thesis by (auto simp add: runMutationTest_def)
  qed
next
  case (Rejected e)
  with ev show ?thesis by (auto simp add: runMutationTest_def)
next
  case Pending
  with ev show ?thesis by (auto simp add: runMutationTest_def)
qed

lemma constructor_config:
  "config (fst (constructor env options))
     = freezeRecursively (foldl (\<lambda>cfg name. create env name cfg)
         (readConfig env options) (knownNames env))"
  by (simp add: constructor_def applyConfigWriters_def freezeConfig_def Let_def)

subsection \<open>The claims\<close>

lemma truthy_iff: "truthy v \<longleftrightarrow> (\<exists>n. v = Some n \<and> n \<noteq> 0)"
  by (cases v) (simp_all add: truthy_def)

text \<open>
  Claim C1. When the initial run has settled with the baseline results and the list of
  unsuccessful runs is not empty, \<open>runMutationTest\<close> rejects with the error
  \<open>InitialRunFailed\<close>, and none of its events is a generation of mutants, a matching of
  mutants with run results or an execution of mutants.
\<close>

theorem runMutationTest_aborts_on_failed_baseline:
  assumes "resolve c (getProp ''mutate'' (config this)) (getProp ''files'' (config this))
             = Fulfilled inputFiles"
    and "initialRun c (config this) inputFiles = Fulfilled runResults"
    and "filterOutUnsuccesfulResults runResults \<noteq> []"
  shows "fst (runMutationTest this c) = Rejected InitialRunFailed
         \<and> (\<forall>ev \<in> set (snd (runMutationTest this c)). \<not> isMutantWork ev)"
proof -
  have "\<not> isMutantWork ev"
    if "ev \<in> set (logFailedTests (filterOutUnsuccesfulResults runResults))"
    for ev :: "'a event"
    using logFailedTests_events [OF that] by (cases ev) simp_all
  then show ?thesis
    unfolding runMutationTest_gate_failed [OF assms]
    by (auto simp add: setupEvents_def)
qed

theorem runMutationTest_aborts_on_failed_baseline_witness:
  "fst (runMutationTest \<lparr>config = exampleConfig\<rparr> (exampleCollaborators failedBaseline Void))
     = Rejected (JsError ''There were failed tests in the initial test run'')
   \<and> list_all (\<lambda>ev. \<not> isMutantWork ev)
        (snd (runMutationTest \<lparr>config = exampleConfig\<rparr> (exampleCollaborators failedBaseline Void)))"
  using runMutationTest_aborts_on_failed_baseline
    [of "exampleCollaborators failedBaseline Void" "\<lparr>config = exampleConfig\<rparr>"
        exampleFiles failedBaseline]
  by (simp add: exampleCollaborators_def failedBaseline_def filterOutUnsuccesfulResults_def
        truthy_def InitialRunFailed_def list_all_iff)

text \<open>
  Claim C2. For every list of run results, \<open>filterOutUnsuccesfulResults\<close> returns
  exactly the runs whose status is not \<open>Complete\<close>, or whose status is \<open>Complete\<close> and
  whose failed-count is a nonzero number; a list in which every run is \<open>Complete\<close> with
  zero failed (or with no failed-count at all) gives the empty list.
\<close>

theorem filterOutUnsuccesfulResults_exact:
  "filterOutUnsuccesfulResults runResults =
     filter (\<lambda>r. result r \<noteq> Complete
                \<or> (result r = Complete \<and> (\<exists>n. failed r = Some n \<and> n \<noteq> 0))) runResults
   \<and> ((\<forall>r \<in> set runResults. result r = Complete \<and> (failed r = Some 0 \<or> failed r = None))
        \<longrightarrow> filterOutUnsuccesfulResults runResults = [])"
proof
  have same: "\<And>r. (\<not> (\<not> truthy (failed r) \<and> result r = Complete))
      = (result r \<noteq> Complete \<or> (result r = Complete \<and> (\<exists>n. failed r = Some n \<and> n \<noteq> 0)))"
    using truthy_iff by blast
  show "filterOutUnsuccesfulResults runResults =
     filter (\<lambda>r. result r \<noteq> Complete
                \<or> (result r = Complete \<and> (\<exists>n. failed r = Some n \<and> n \<noteq> 0))) runResults"
    unfolding filterOutUnsuccesfulResults_def by (simp only: same)
  show "(\<forall>r \<in> set runResults. result r = Complete \<and> (failed r = Some 0 \<or> failed r = None))
        \<longrightarrow> filterOutUnsuccesfulResults runResults = []"
    unfolding filterOutUnsuccesfulResults_def
    by (auto simp add: filter_empty_conv truthy_def)
qed

theorem filterOutUnsuccesfulResults_exact_witness:
  "filterOutUnsuccesfulResults
     [\<lparr>testNames = [''t1''], result = Complete, succeeded = Some 10, failed = Some 0,
        errorMessages = []\<rparr>,
      \<lparr>testNames = [''t2''], result = Complete, succeeded = Some 3, failed = None,
        errorMessages = []\<rparr>] = []
   \<and> filterOutUnsuccesfulResults
     [\<lparr>testNames = [''t1''], result = Complete, succeeded = Some 10, failed = Some 0,
        errorMessages = []\<rparr>,
      \<lparr>testNames = [''t2''], result = Complete, succeeded = Some 3, failed = Some 2,
        errorMessages = []\<rparr>,
      \<lparr>testNames = [], result = Timeout, succeeded = None, failed = None,
        errorMessages = []\<rparr>]
     = [\<lparr>testNames = [''t2''], result = Complete, succeeded = Some 3, failed = Some 2,
        errorMessages = []\<rparr>,
      \<lparr>testNames = [], result = Timeout, succeeded = None, failed = None,
        errorMessages = []\<rparr>]"
  using filterOutUnsuccesfulResults_exact [of
     "[\<lparr>testNames = [''t1''], result = Complete, succeeded = Some 10, failed = Some 0,
        errorMessages = []\<rparr>,
      \<lparr>testNames = [''t2''], result = Complete, succeeded = Some 3, failed = None,
        errorMessages = []\<rparr>]"]
    filterOutUnsuccesfulResults_exact [of
     "[\<lparr>testNames = [''t1''], result = Complete, succeeded = Some 10, failed = Some 0,
        errorMessages = []\<rparr>,
      \<lparr>testNames = [''t2''], result = Complete, succeeded = Some 3, failed = Some 2,
        errorMessages = []\<rparr>,
      \<lparr>testNames = [], result = Timeout, succeeded = None, failed = None,
        errorMessages = []\<rparr>]"]
  by simp

text \<open>
  Claim C3, as the code has it. A run result carries the names of the tests it ran and
  the number of those that failed, not which ones, so the diagnostic cannot name the
  failing tests alone: on one complete run of the tests \<open>passes\<close> and \<open>fails\<close> with one
  failure, both names are listed under "tests failed".
\<close>

theorem failedSpecNames_lists_passing_test:
  "map failed mixedBaseline = [Some 1]
   \<and> failedSpecNames (filterOutUnsuccesfulResults mixedBaseline) = [''fails'', ''passes'']
   \<and> \<not> length (failedSpecNames (filterOutUnsuccesfulResults mixedBaseline)) \<le> 1
   \<and> filter isLogError
        (snd (runMutationTest \<lparr>config = exampleConfig\<rparr> (exampleCollaborators mixedBaseline Void)))
       = [LogError (''One or more tests failed in the inial test run:''
            @ [CHR 0x0A, CHR 0x09] @ ''fails'' @ [CHR 0x0A, CHR 0x09] @ ''passes'')]"
  by code_simp

text \<open>
  Claim C3, amended. When the baseline gate fails, the list of names of the diagnostic
  is sorted and free of duplicates, and its elements are exactly the test names of the
  runs of the baseline that are \<open>Complete\<close> and unsuccessful. The errors the run logs are
  then: when that list is not empty, one message made of the line
  "One or more tests failed in the inial test run:" and, for each name of the list in
  order, a newline, a tab and the name; and after it the message of the error
  messages, when there are any.
\<close>

theorem failedSpecNames_diagnostic:
  assumes "resolve c (getProp ''mutate'' (config this)) (getProp ''files'' (config this))
             = Fulfilled inputFiles"
    and "initialRun c (config this) inputFiles = Fulfilled runResults"
    and "filterOutUnsuccesfulResults runResults \<noteq> []"
  shows "sorted (failedSpecNames (filterOutUnsuccesfulResults runResults))
     \<and> distinct (failedSpecNames (filterOutUnsuccesfulResults runResults))
     \<and> set (failedSpecNames (filterOutUnsuccesfulResults runResults))
         = (\<Union>r \<in> {r \<in> set runResults. result r = Complete \<and> truthy (failed r)}. set (testNames r))
     \<and> filter isLogError (snd (runMutationTest this c))
         = (if failedSpecNames (filterOutUnsuccesfulResults runResults) = [] then []
            else [LogError (''One or more tests failed in the inial test run:''
                    @ concat (map (\<lambda>name. CHR 0x0A # CHR 0x09 # name)
                        (failedSpecNames (filterOutUnsuccesfulResults runResults))))])
           @ (if errors (filterOutUnsuccesfulResults runResults) = [] then []
              else [LogError (''One or more tests errored in the initial test run:''
                      @ concat (map (\<lambda>error. CHR 0x0A # CHR 0x09 # error)
                          (errors (filterOutUnsuccesfulResults runResults))))])"
proof -
  have logged: "filter isLogError (snd (runMutationTest this c))
      = logFailedTests (filterOutUnsuccesfulResults runResults)"
    unfolding runMutationTest_gate_failed [OF assms]
    by (simp add: setupEvents_def logFailedTests_all_errors)
  show ?thesis
    unfolding logged
    by (simp add: failedSpecNames_sorted failedSpecNames_distinct failedSpecNames_set
          unsuccessful_Complete logFailedTests_def appendLines_concat)
qed

theorem failedSpecNames_diagnostic_witness:
  "failedSpecNames (filterOutUnsuccesfulResults failedBaseline) = [''a'', ''b'', ''c'']
   \<and> filter isLogError
        (snd (runMutationTest \<lparr>config = exampleConfig\<rparr> (exampleCollaborators failedBaseline Void)))
       = [LogError (''One or more tests failed in the inial test run:''
            @ [CHR 0x0A, CHR 0x09] @ ''a'' @ [CHR 0x0A, CHR 0x09] @ ''b''
            @ [CHR 0x0A, CHR 0x09] @ ''c'')]"
proof -
  have names: "failedSpecNames (filterOutUnsuccesfulResults failedBaseline) = [''a'', ''b'', ''c'']"
    by code_simp
  have none: "errors (filterOutUnsuccesfulResults failedBaseline) = []"
    by code_simp
  have gate: "filterOutUnsuccesfulResults failedBaseline \<noteq> []"
    by (simp add: failedBaseline_def filterOutUnsuccesfulResults_def truthy_def)
  show ?thesis
    using failedSpecNames_diagnostic
      [of "exampleCollaborators failedBaseline Void" "\<lparr>config = exampleConfig\<rparr>"
          exampleFiles failedBaseline] gate
    unfolding names none
    by (simp add: exampleCollaborators_def)
qed

text \<open>
  Claim C4. The error messages of the unsuccessful \<open>Error\<close> runs are flattened and sorted,
  and not deduplicated: on two \<open>Error\<close> runs that both report \<open>timeout\<close> the list of
  errors holds \<open>timeout\<close> twice, and so does the logged message. The list of failing
  test names goes through \<open>uniq\<close>, this one does not.
\<close>

theorem errors_not_deduplicated:
  "errors (filterOutUnsuccesfulResults erroredBaseline) = [''timeout'', ''timeout'']
   \<and> (logFailedTests (filterOutUnsuccesfulResults erroredBaseline) :: string event list)
      = [LogError (''One or more tests errored in the initial test run:''
           @ [CHR 0x0A, CHR 0x09] @ ''timeout'' @ [CHR 0x0A, CHR 0x09] @ ''timeout'')]
   \<and> \<not> distinct (errors (filterOutUnsuccesfulResults erroredBaseline))"
  by code_simp

text \<open>
  Claim C5. When the baseline run is clean, the mutant generator is called once, with
  the paths of the input files whose \<open>shouldMutate\<close> flag is true, in the order of the
  input files; every path passed is the path of an input file that is to be mutated.
\<close>

theorem generateMutants_paths:
  assumes "resolve c (getProp ''mutate'' (config this)) (getProp ''files'' (config this))
             = Fulfilled inputFiles"
    and "initialRun c (config this) inputFiles = Fulfilled runResults"
    and "filterOutUnsuccesfulResults runResults = []"
  shows "filter isGenerateMutants (snd (runMutationTest this c))
           = [GenerateMutants (map path (filter shouldMutate inputFiles))]
     \<and> subseq (map path (filter shouldMutate inputFiles)) (map path inputFiles)
     \<and> set (map path (filter shouldMutate inputFiles))
         = path ` {file \<in> set inputFiles. shouldMutate file}"
proof -
  obtain tail where tail: "snd (runMutationTest this c)
      = (setupEvents this inputFiles @ logInitialTestRunSucceeded runResults
         @ [GenerateMutants (map path (filter shouldMutate inputFiles)),
            LogInfo (showNat (length (generateMutants c (map path (filter shouldMutate inputFiles))))
                     @ '' Mutant(s) generated''),
            MatchWithMutants (generateMutants c (map path (filter shouldMutate inputFiles))) runResults,
            RunMutations (config this) inputFiles
              (matchWithMutants c (generateMutants c (map path (filter shouldMutate inputFiles))) runResults)])
        @ tail"
    and "set tail \<subseteq> {WrapUp}"
    unfolding runMutationTest_gate_clean [OF assms]
    using onMutantResults_events by blast
  then have "filter isGenerateMutants (snd (runMutationTest this c))
           = [GenerateMutants (map path (filter shouldMutate inputFiles))]"
    by (simp add: filter_wrapUp_tail setupEvents_def logInitialTestRunSucceeded_def)
  moreover have "subseq (map path (filter shouldMutate inputFiles)) (map path inputFiles)"
    by (simp add: subseq_map)
  ultimately show ?thesis by auto
qed

theorem generateMutants_paths_witness:
  "filter isGenerateMutants
     (snd (runMutationTest \<lparr>config = exampleConfig\<rparr> (exampleCollaborators cleanBaseline Void)))
     = [GenerateMutants [''src/a.js'', ''src/b.js'']]"
  using generateMutants_paths
    [of "exampleCollaborators cleanBaseline Void" "\<lparr>config = exampleConfig\<rparr>"
        exampleFiles cleanBaseline]
  by (simp add: exampleCollaborators_def exampleFiles_def cleanBaseline_def
        filterOutUnsuccesfulResults_def truthy_def)

text \<open>
  Claim C6. After the execution of the mutants has completed with the mutant results,
  the reporter is wrapped up, as the last call of the run. If \<open>wrapUp\<close> returns no
  promise, \<open>runMutationTest\<close> resolves with the mutant results. If it returns a promise,
  \<open>runMutationTest\<close> ends as that promise does: it resolves with the mutant results
  when the promise is fulfilled, it is rejected when the promise is, and it stays
  pending while the promise does.
\<close>

theorem wrapUp_awaited:
  assumes "resolve c (getProp ''mutate'' (config this)) (getProp ''files'' (config this))
             = Fulfilled inputFiles"
    and "initialRun c (config this) inputFiles = Fulfilled runResults"
    and "filterOutUnsuccesfulResults runResults = []"
    and "runMutations c (config this) inputFiles
           (matchWithMutants c (generateMutants c (map path (filter shouldMutate inputFiles)))
              runResults) = Fulfilled mutantResults"
  shows "suffix [WrapUp] (snd (runMutationTest this c))
       \<and> (wrapUp c = Void \<longrightarrow> fst (runMutationTest this c) = Fulfilled mutantResults)
       \<and> (wrapUp c = Promise (Fulfilled ())
            \<longrightarrow> fst (runMutationTest this c) = Fulfilled mutantResults)
       \<and> (\<forall>e. wrapUp c = Promise (Rejected e) \<longrightarrow> fst (runMutationTest this c) = Rejected e)
       \<and> (wrapUp c = Promise Pending \<longrightarrow> fst (runMutationTest this c) = Pending)"
proof -
  have last: "suffix [WrapUp] (snd (runMutationTest this c))"
  proof (cases "wrapUp c")
    case Void
    then show ?thesis
      unfolding runMutationTest_gate_clean [OF assms(1-3)] assms(4)
      by (simp add: onMutantResults_def suffix_def)
  next
    case (Promise finalization)
    then show ?thesis
      unfolding runMutationTest_gate_clean [OF assms(1-3)] assms(4)
      by (cases finalization) (simp_all add: onMutantResults_def suffix_def)
  qed
  show ?thesis
    using last unfolding runMutationTest_gate_clean [OF assms(1-3)] assms(4)
    by (simp add: onMutantResults_def)
qed

theorem wrapUp_awaited_witness:
  "fst (runMutationTest \<lparr>config = exampleConfig\<rparr> (exampleCollaborators cleanBaseline Void))
     = Fulfilled [(''src/a.js:1'', True), (''src/b.js:1'', True)]
   \<and> fst (runMutationTest \<lparr>config = exampleConfig\<rparr> (exampleCollaborators cleanBaseline (Promise (Fulfilled ()))))
     = Fulfilled [(''src/a.js:1'', True), (''src/b.js:1'', True)]
   \<and> fst (runMutationTest \<lparr>config = exampleConfig\<rparr> (exampleCollaborators cleanBaseline (Promise (Rejected (JsError ''disk full'')))))
     = Rejected (JsError ''disk full'')
   \<and> fst (runMutationTest \<lparr>config = exampleConfig\<rparr> (exampleCollaborators cleanBaseline (Promise Pending)))
     = Pending
   \<and> suffix [WrapUp]
        (snd (runMutationTest \<lparr>config = exampleConfig\<rparr> (exampleCollaborators cleanBaseline (Promise Pending))))"
  using wrapUp_awaited
    [of "exampleCollaborators cleanBaseline Void" "\<lparr>config = exampleConfig\<rparr>"
        exampleFiles cleanBaseline
        "[(''src/a.js:1'', True), (''src/b.js:1'', True)]"]
    wrapUp_awaited
    [of "exampleCollaborators cleanBaseline (Promise (Fulfilled ()))" "\<lparr>config = exampleConfig\<rparr>"
        exampleFiles cleanBaseline
        "[(''src/a.js:1'', True), (''src/b.js:1'', True)]"]
    wrapUp_awaited
    [of "exampleCollaborators cleanBaseline (Promise (Rejected (JsError ''disk full'')))" "\<lparr>config = exampleConfig\<rparr>"
        exampleFiles cleanBaseline
        "[(''src/a.js:1'', True), (''src/b.js:1'', True)]"]
    wrapUp_awaited
    [of "exampleCollaborators cleanBaseline (Promise Pending)" "\<lparr>config = exampleConfig\<rparr>"
        exampleFiles cleanBaseline
        "[(''src/a.js:1'', True), (''src/b.js:1'', True)]"]
  by (simp add: exampleCollaborators_def exampleFiles_def cleanBaseline_def
        filterOutUnsuccesfulResults_def truthy_def)

text \<open>
  Claim C7. When every baseline run is successful, the run logs once the total of the
  succeeded counts of all baseline runs (an absent count adding nothing), and the
  matcher is constructed once, with the generated mutants and the baseline run results
  as they came from the initial run. The counts are numbers of tests: none is negative,
  and their sum is below \<open>2 ^ 53\<close>, where the additions of the code are exact.
\<close>

theorem succeeded_total_and_matcher_input:
  assumes "resolve c (getProp ''mutate'' (config this)) (getProp ''files'' (config this))
             = Fulfilled inputFiles"
    and "initialRun c (config this) inputFiles = Fulfilled runResults"
    and "filterOutUnsuccesfulResults runResults = []"
    and "\<forall>r \<in> set runResults. \<forall>n. succeeded r = Some n \<longrightarrow> 0 \<le> n"
    and "(\<Sum>r\<leftarrow>runResults. case succeeded r of Some n \<Rightarrow> n | None \<Rightarrow> 0) < 2 ^ 53"
  shows "filter isLogInfoFormat (snd (runMutationTest this c))
           = [LogInfoFormat ''Initial test run succeeded. Ran %s tests.''
                (Finite (\<Sum>r\<leftarrow>runResults. case succeeded r of Some n \<Rightarrow> n | None \<Rightarrow> 0))]
     \<and> filter isMatchWithMutants (snd (runMutationTest this c))
           = [MatchWithMutants (generateMutants c (map path (filter shouldMutate inputFiles)))
                runResults]"
proof -
  obtain tail where tail: "snd (runMutationTest this c)
      = (setupEvents this inputFiles @ logInitialTestRunSucceeded runResults
         @ [GenerateMutants (map path (filter shouldMutate inputFiles)),
            LogInfo (showNat (length (generateMutants c (map path (filter shouldMutate inputFiles))))
                     @ '' Mutant(s) generated''),
            MatchWithMutants (generateMutants c (map path (filter shouldMutate inputFiles))) runResults,
            RunMutations (config this) inputFiles
              (matchWithMutants c (generateMutants c (map path (filter shouldMutate inputFiles))) runResults)])
        @ tail"
    and "set tail \<subseteq> {WrapUp}"
    unfolding runMutationTest_gate_clean [OF assms(1-3)]
    using onMutantResults_events by blast
  then show ?thesis
    by (simp add: filter_wrapUp_tail setupEvents_def logInitialTestRunSucceeded_def
          totalAmountOfTests_sum [OF assms(4,5)])
qed

theorem succeeded_total_and_matcher_input_witness:
  "filter isLogInfoFormat
     (snd (runMutationTest \<lparr>config = exampleConfig\<rparr> (exampleCollaborators cleanBaseline Void)))
     = [LogInfoFormat ''Initial test run succeeded. Ran %s tests.'' (Finite 10)]
   \<and> filter isMatchWithMutants
     (snd (runMutationTest \<lparr>config = exampleConfig\<rparr> (exampleCollaborators cleanBaseline Void)))
     = [MatchWithMutants [''src/a.js:1'', ''src/b.js:1''] cleanBaseline]"
  using succeeded_total_and_matcher_input
    [of "exampleCollaborators cleanBaseline Void" "\<lparr>config = exampleConfig\<rparr>"
        exampleFiles cleanBaseline]
  by (simp add: exampleCollaborators_def exampleFiles_def cleanBaseline_def
        filterOutUnsuccesfulResults_def truthy_def)

text \<open>
  Claim C8. The configuration of a constructed \<open>Stryker\<close> is the configuration that was
  read, with every configuration writer applied in the order of the known names, and
  then frozen recursively: the object and every object below it is frozen, freezing it
  again changes nothing, every assignment into it throws, and every call in
  \<open>runMutationTest\<close> that is handed the configuration is handed this one.
\<close>

theorem config_frozen:
  "config (fst (constructor env options))
     = freezeRecursively (foldl (\<lambda>cfg configWriterName. create env configWriterName cfg)
         (readConfig env options) (knownNames env))
   \<and> frozenRecursively (config (fst (constructor env options)))
   \<and> freezeRecursively (config (fst (constructor env options)))
       = config (fst (constructor env options))
   \<and> (\<forall>k ks v. assign k ks v (config (fst (constructor env options))) = Inl TypeError)
   \<and> (\<forall>ev \<in> set (snd (runMutationTest (fst (constructor env options)) c)).
         observes (config (fst (constructor env options))) ev)"
proof -
  have frozen: "frozenRecursively (config (fst (constructor env options)))"
    unfolding constructor_config by (rule frozenRecursively_freezeRecursively)
  show ?thesis
    using frozen constructor_config [of env options]
      freezeRecursively_frozen [OF frozen] assign_frozen [OF frozen] runMutationTest_observes
    by blast
qed

theorem config_frozen_witness:
  "fst (constructor exampleEnvironment ()) = \<lparr>config = exampleConfig\<rparr>
   \<and> assign ''files'' [''0''] (Str ''evil.js'') exampleConfig = Inl (JsError ''TypeError'')
   \<and> assign ''files'' [''0''] (Str ''evil.js'') (readConfig exampleEnvironment ())
       = Inr (Obj False [(''files'', Obj False [(''0'', Str ''evil.js''), (''1'', Str ''test/a.spec.js'')]),
                   (''mutate'', Obj False [(''0'', Str ''src/a.js'')])])
   \<and> list_all (observes exampleConfig)
        (snd (runMutationTest (fst (constructor exampleEnvironment ()))
               (exampleCollaborators cleanBaseline Void)))"
proof -
  have built: "fst (constructor exampleEnvironment ()) = \<lparr>config = exampleConfig\<rparr>"
    by (simp add: constructor_def applyConfigWriters_def freezeConfig_def
          exampleEnvironment_def exampleConfig_def setGlobalLogLevel_def loadPlugins_def)
  show ?thesis
    using config_frozen [of exampleEnvironment "()" "exampleCollaborators cleanBaseline Void"]
    unfolding built
    by (simp add: list_all_iff TypeError_def exampleEnvironment_def)
qed

text \<open>
  Claim C9. A baseline run whose status is neither \<open>Complete\<close> nor \<open>Error\<close> makes
  \<open>runMutationTest\<close> reject with \<open>InitialRunFailed\<close>; such runs add nothing to the list of
  failing test names nor to the list of errors; and when every unsuccessful run is such
  a run, the rejected run logs no error at all.
\<close>

theorem timeout_aborts_silently:
  assumes "resolve c (getProp ''mutate'' (config this)) (getProp ''files'' (config this))
             = Fulfilled inputFiles"
    and "initialRun c (config this) inputFiles = Fulfilled runResults"
  shows "((\<exists>r \<in> set runResults. result r \<noteq> Complete \<and> result r \<noteq> Error)
            \<longrightarrow> fst (runMutationTest this c) = Rejected InitialRunFailed)
       \<and> failedSpecNames (filter (\<lambda>r. result r = Complete \<or> result r = Error) unsuccessfulTests)
           = failedSpecNames unsuccessfulTests
       \<and> errors (filter (\<lambda>r. result r = Complete \<or> result r = Error) unsuccessfulTests)
           = errors unsuccessfulTests
       \<and> (filterOutUnsuccesfulResults runResults \<noteq> []
          \<and> (\<forall>r \<in> set (filterOutUnsuccesfulResults runResults).
                result r \<noteq> Complete \<and> result r \<noteq> Error)
            \<longrightarrow> fst (runMutationTest this c) = Rejected InitialRunFailed
                \<and> (\<forall>ev \<in> set (snd (runMutationTest this c)). \<not> isLogError ev))"
proof (intro conjI impI)
  assume "\<exists>r \<in> set runResults. result r \<noteq> Complete \<and> result r \<noteq> Error"
  then have "filterOutUnsuccesfulResults runResults \<noteq> []"
    by (auto simp add: filterOutUnsuccesfulResults_def filter_empty_conv)
  then show "fst (runMutationTest this c) = Rejected InitialRunFailed"
    by (simp add: runMutationTest_gate_failed [OF assms])
next
  show "failedSpecNames (filter (\<lambda>r. result r = Complete \<or> result r = Error) unsuccessfulTests)
           = failedSpecNames unsuccessfulTests"
    by (simp add: failedSpecNames_def cong: rev_conj_cong)
next
  show "errors (filter (\<lambda>r. result r = Complete \<or> result r = Error) unsuccessfulTests)
           = errors unsuccessfulTests"
    by (simp add: errors_def cong: rev_conj_cong)
next
  assume quiet: "filterOutUnsuccesfulResults runResults \<noteq> []
          \<and> (\<forall>r \<in> set (filterOutUnsuccesfulResults runResults).
                result r \<noteq> Complete \<and> result r \<noteq> Error)"
  then show "fst (runMutationTest this c) = Rejected InitialRunFailed"
    by (simp add: runMutationTest_gate_failed [OF assms])
  from quiet have none: "filter (\<lambda>r. result r = Complete) (filterOutUnsuccesfulResults runResults) = []"
     "filter (\<lambda>r. result r = Error) (filterOutUnsuccesfulResults runResults) = []"
    by (simp_all add: filter_empty_conv)
  have "(logFailedTests (filterOutUnsuccesfulResults runResults) :: 'a event list) = []"
    by (simp add: logFailedTests_def failedSpecNames_def errors_def none uniq_def)
  with quiet show "\<forall>ev \<in> set (snd (runMutationTest this c)). \<not> isLogError ev"
    by (simp add: runMutationTest_gate_failed [OF assms] setupEvents_def)
qed

theorem timeout_aborts_silently_witness:
  "fst (runMutationTest \<lparr>config = exampleConfig\<rparr> (exampleCollaborators timedOutBaseline Void))
     = Rejected (JsError ''There were failed tests in the initial test run'')
   \<and> list_all (\<lambda>ev. \<not> isLogError ev)
        (snd (runMutationTest \<lparr>config = exampleConfig\<rparr> (exampleCollaborators timedOutBaseline Void)))"
proof -
  have gate: "filterOutUnsuccesfulResults timedOutBaseline
      = [\<lparr>testNames = [''loops''], result = Timeout,
           succeeded = None, failed = None, errorMessages = [''gave up'']\<rparr>]"
    by (simp add: timedOutBaseline_def filterOutUnsuccesfulResults_def truthy_def)
  show ?thesis
    using timeout_aborts_silently
      [of "exampleCollaborators timedOutBaseline Void" "\<lparr>config = exampleConfig\<rparr>"
        exampleFiles timedOutBaseline]
    unfolding gate
    by (simp add: exampleCollaborators_def InitialRunFailed_def list_all_iff)
qed

text \<open>
  Claim C10. \<open>filterOutUnsuccesfulResults\<close> is read-only and order-preserving: the
  returned list is a subsequence of the input, every returned element is an element of
  the input, and over a store of objects the returned references are a subsequence of
  the given ones, they denote the runs the list version returns, and the store is
  unchanged.
\<close>

theorem filterOutUnsuccesfulResults_frame:
  "subseq (filterOutUnsuccesfulResults runResults) runResults
   \<and> set (filterOutUnsuccesfulResults runResults) \<subseteq> set runResults
   \<and> subseq (fst (filterOutUnsuccesfulResults_store store refs)) refs
   \<and> map store (fst (filterOutUnsuccesfulResults_store store refs))
       = filterOutUnsuccesfulResults (map store refs)
   \<and> snd (filterOutUnsuccesfulResults_store store refs) = store"
  unfolding filterOutUnsuccesfulResults_def filterOutUnsuccesfulResults_store_def
  by (simp add: filter_map comp_def)

theorem filterOutUnsuccesfulResults_frame_witness:
  "fst (filterOutUnsuccesfulResults_store
      (\<lambda>p. \<lparr>testNames = [], result = (if p = 1 then Timeout else Complete),
                succeeded = None, failed = (if p = 2 then Some 1 else None),
                errorMessages = []\<rparr>) [0, 2, 1, 3]) = [2, 1]"
  using filterOutUnsuccesfulResults_frame [of "[]"
      "\<lambda>p. \<lparr>testNames = [], result = (if p = 1 then Timeout else Complete),
                succeeded = None, failed = (if p = 2 then Some 1 else None),
                errorMessages = []\<rparr>" "[0, 2, 1, 3]"]
  by (simp add: filterOutUnsuccesfulResults_store_def truthy_def)

end
